theory Spec2Isabelle
  imports Main "HOL-Library.Sublist" "HOL-Library.Multiset"
begin

section \<open>Data model of \<open>src/scripts/drift-detection.ts\<close>\<close>

text \<open>
  The string-literal union types of the TypeScript interfaces are datatypes, the
  interfaces are records, optional fields are options. Strings are byte lists.
  The resource-level constructors carry the prefix \<open>R_\<close> because \<open>IN_SYNC\<close> and
  \<open>NOT_CHECKED\<close> occur in both unions of the source.
\<close>

datatype StackDriftStatus = IN_SYNC | DRIFTED | UNKNOWN | NOT_CHECKED

datatype DetectionStatus = DETECTION_IN_PROGRESS | DETECTION_COMPLETE | DETECTION_FAILED

datatype StackResourceDriftStatus = R_IN_SYNC | R_MODIFIED | R_DELETED | R_NOT_CHECKED

record DriftStatus =
  StackDriftStatus :: StackDriftStatus
  DetectionStatus :: DetectionStatus
  DriftedStackResourceCount :: "int option"
  Timestamp :: string
  StatusReason :: "string option"

record PropertyDifference =
  PropertyPath :: string
  DifferenceType :: string
  ActualValue :: "string option"
  ExpectedValue :: "string option"

record ResourceDrift =
  LogicalResourceId :: string
  PhysicalResourceId :: string
  ResourceType :: string
  StackResourceDriftStatus :: StackResourceDriftStatus
  PropertyDifferences :: "PropertyDifference list option"
  ResourceTimestamp :: string

record DriftAnalysis =
  total :: nat
  drifted :: nat
  deleted :: "ResourceDrift list"
  modified :: "ResourceDrift list"
  inSync :: nat

section \<open>Classification of a drift batch\<close>

text \<open>
  \<open>analyzeDrifts\<close> (lines 141-151): \<open>Array.prototype.filter\<close> is \<open>filter\<close>,
  \<open>.length\<close> is \<open>length\<close>; the five fields are computed independently from
  the input array.
\<close>

definition analyzeDrifts :: "ResourceDrift list \<Rightarrow> DriftAnalysis" where
  "analyzeDrifts drifts =
     \<lparr> total = length drifts,
       drifted = length (filter (\<lambda>d. StackResourceDriftStatus d = R_MODIFIED
                                    \<or> StackResourceDriftStatus d = R_DELETED) drifts),
       deleted = filter (\<lambda>d. StackResourceDriftStatus d = R_DELETED) drifts,
       modified = filter (\<lambda>d. StackResourceDriftStatus d = R_MODIFIED) drifts,
       inSync = length (filter (\<lambda>d. StackResourceDriftStatus d = R_IN_SYNC) drifts) \<rparr>"

text \<open>How many records of a batch carry a given resource status.\<close>

definition countStatus :: "StackResourceDriftStatus \<Rightarrow> ResourceDrift list \<Rightarrow> nat" where
  "countStatus st drifts = count_list (map StackResourceDriftStatus drifts) st"


section \<open>Errors, external commands and the observable trace\<close>

text \<open>
  A thrown JavaScript \<open>Error\<close>. \<open>ExecError msg\<close> is what \<open>execSync\<close>, \<open>JSON.parse\<close>
  or a property access on the parsed value throws, with its \<open>message\<close>.
  \<open>DetectionFailedError r\<close> is the error built at line 112: its message is a fixed
  text followed by the reported reason \<open>r\<close>, or by a fixed fallback text when \<open>r\<close> is
  \<open>None\<close>. \<open>DetectionTimeoutError\<close> is the error of line 126. \<open>TypeError\<close> is what
  reading \<open>drifts.length\<close> throws in \<open>analyzeDrifts\<close> when \<open>drifts\<close> is undefined.
\<close>

datatype error =
    ExecError string
  | DetectionFailedError "string option"
  | DetectionTimeoutError
  | TypeError

text \<open>The command lines handed to \<open>execSync\<close>, with the interpolated argument.\<close>

datatype command =
    isDescribeStacks: DescribeStacks string
  | isDetectStackDrift: DetectStackDrift string
  | isDescribeStatus: DescribeStackDriftDetectionStatus string
  | isDescribeResourceDrifts: DescribeStackResourceDrifts string
  | isCdkDeploy: CdkDeploy

text \<open>
  The fixed texts written to the console, one constructor per output statement of the
  source, with the interpolated values.
\<close>

datatype message =
    MsgDetectionStarting string
  | MsgDetectionStartFailed
  | MsgWaiting
  | MsgStatusCheckFailed
  | MsgDetailsFailed
  | MsgReportTitle
  | MsgReportRule
  | MsgStackState StackDriftStatus
  | MsgDetectedAt string
  | MsgTotalResources nat
  | MsgInSyncResources nat
  | MsgDriftedResources nat
  | MsgDeletedHeader
  | MsgResource string string
  | MsgPhysicalId string
  | MsgModifiedHeader
  | MsgDiffHeader
  | MsgDiff string string
  | MsgNoRepairNeeded
  | MsgDriftDetected
  | MsgRepairStarting
  | MsgRedeploying
  | MsgRepairDone
  | MsgVerifying
  | MsgRepairVerified
  | MsgDriftRemains
  | MsgRepairFailed
  | MsgStackMissing string
  | MsgDetectionDone
  | MsgDetectionProcessFailed
  | MsgFinalResult
  | MsgStackExists bool
  | MsgRepairAttempted bool
  | MsgRepairSucceeded bool
  | MsgProgramFailed

text \<open>
  Everything the detector does to the outside, in order: a command run by \<open>execSync\<close>,
  a \<open>setTimeout\<close> sleep in milliseconds, console output (\<open>console.error\<close> prints a text
  and the caught error's message), and the three operations on the readline interface.
\<close>

datatype event =
    Exec command
  | Sleep nat
  | ConsoleLog message
  | ConsoleError message error
  | StdoutWrite string
  | RlCreate
  | RlQuestion
  | RlClose

text \<open>
  The detector object (\<open>stackName\<close>, and \<open>rl\<close>: whether the readline interface is held)
  together with the trace of events so far.
\<close>

record state =
  stackName :: string
  rl :: bool
  trace :: "event list"

text \<open>
  The external collaborators: the AWS CLI, \<open>cdk deploy\<close> and the user at the terminal.
  Each answers its \<open>n\<close>-th invocation (counted from 0, per kind of command) with an
  error message or with the fields the source reads from the parsed JSON:
  \<open>Stacks.length\<close>, \<open>StackDriftDetectionId\<close>, the drift status, \<open>StackResourceDrifts\<close>
  (\<open>None\<close> when the reply has no such key, so that the source reads undefined).
  \<open>cdkDeploy\<close> yields \<open>None\<close> on success. \<open>answer\<close> is the line the user types at
  the \<open>n\<close>-th question, \<open>None\<close> when the question is never answered (the input is at
  its end): the callback of \<open>rl.question\<close> is then never called.
\<close>

record provider =
  describeStacks :: "nat \<Rightarrow> string \<Rightarrow> string + nat"
  detectStackDrift :: "nat \<Rightarrow> string \<Rightarrow> string + string"
  describeStatus :: "nat \<Rightarrow> string \<Rightarrow> string + DriftStatus"
  describeResourceDrifts :: "nat \<Rightarrow> string \<Rightarrow> string + ResourceDrift list option"
  cdkDeploy :: "nat \<Rightarrow> string option"
  answer :: "nat \<Rightarrow> string option"

definition emit :: "event list \<Rightarrow> state \<Rightarrow> state" where
  "emit es s = s\<lparr>trace := trace s @ es\<rparr>"

definition calls :: "(command \<Rightarrow> bool) \<Rightarrow> state \<Rightarrow> nat" where
  "calls k s = length (filter (\<lambda>e. case e of Exec c \<Rightarrow> k c | _ \<Rightarrow> False) (trace s))"

definition questions :: "state \<Rightarrow> nat" where
  "questions s = count_list (trace s) RlQuestion"

section \<open>The detector\<close>

text \<open>The constructor (lines 46-49): no readline interface yet.\<close>

definition DriftDetector :: "string \<Rightarrow> state" where
  "DriftDetector name = \<lparr> stackName = name, rl = False, trace = [] \<rparr>"

text \<open>\<open>createReadlineInterface\<close> (lines 52-60) and \<open>cleanup\<close> (lines 63-68).\<close>

definition createReadlineInterface :: "state \<Rightarrow> state" where
  "createReadlineInterface s = (if \<not> rl s then (emit [RlCreate] s)\<lparr>rl := True\<rparr> else s)"

definition cleanup :: "state \<Rightarrow> state" where
  "cleanup s = (if rl s then (emit [RlClose] s)\<lparr>rl := False\<rparr> else s)"

text \<open>
  \<open>checkStackExists\<close> (lines 71-81). \<open>String.prototype.includes\<close> is \<open>sublist\<close>.
\<close>

definition checkStackExists :: "provider \<Rightarrow> state \<Rightarrow> (error + bool) \<times> state" where
  "checkStackExists p s =
     (let s1 = emit [Exec (DescribeStacks (stackName s))] s in
      case describeStacks p (calls isDescribeStacks s) (stackName s) of
        Inr n \<Rightarrow> (Inr (0 < n), s1)
      | Inl msg \<Rightarrow>
          if sublist ''does not exist'' msg then (Inr False, s1)
          else (Inl (ExecError msg), s1))"

text \<open>\<open>startDriftDetection\<close> (lines 84-95).\<close>

definition startDriftDetection :: "provider \<Rightarrow> state \<Rightarrow> (error + string) \<times> state" where
  "startDriftDetection p s =
     (let s1 = emit [ConsoleLog (MsgDetectionStarting (stackName s)),
                     Exec (DetectStackDrift (stackName s))] s in
      case detectStackDrift p (calls isDetectStackDrift s) (stackName s) of
        Inr detectionId \<Rightarrow> (Inr detectionId, s1)
      | Inl msg \<Rightarrow>
          (Inl (ExecError msg),
           emit [ConsoleError MsgDetectionStartFailed (ExecError msg)] s1))"

text \<open>
  \<open>waitForDriftDetection\<close> (lines 98-127). \<open>waitLoop\<close> is the \<open>while\<close> loop with the
  local variable \<open>attempts\<close>; the \<open>throw\<close> of line 112 is inside the \<open>try\<close>, so the
  \<open>catch\<close> of line 120 logs it and rethrows it, as it does for an error of the query.
  The \<open>throw\<close> of line 126 is outside of it. \<open>a || b\<close> on an optional string takes
  \<open>b\<close> when \<open>a\<close> is undefined or empty.
\<close>

definition maxAttempts :: nat where
  "maxAttempts = 30"

definition orUnknown :: "string option \<Rightarrow> string option" where
  "orUnknown r = (case r of None \<Rightarrow> None | Some t \<Rightarrow> if t = [] then None else Some t)"

function waitLoop :: "provider \<Rightarrow> string \<Rightarrow> nat \<Rightarrow> state \<Rightarrow> (error + DriftStatus) \<times> state" where
  "waitLoop p detectionId attempts s =
     (if attempts < maxAttempts then
        (let s1 = emit [Exec (DescribeStackDriftDetectionStatus detectionId)] s in
         case describeStatus p (calls isDescribeStatus s) detectionId of
           Inl msg \<Rightarrow>
             (Inl (ExecError msg), emit [ConsoleError MsgStatusCheckFailed (ExecError msg)] s1)
         | Inr status \<Rightarrow>
             if DetectionStatus status = DETECTION_COMPLETE then (Inr status, s1)
             else if DetectionStatus status = DETECTION_FAILED then
               (Inl (DetectionFailedError (orUnknown (StatusReason status))),
                emit [ConsoleError MsgStatusCheckFailed
                        (DetectionFailedError (orUnknown (StatusReason status)))] s1)
             else waitLoop p detectionId (attempts + 1)
                    (emit [Sleep 10000, StdoutWrite ''.''] s1))
      else (Inl DetectionTimeoutError, s))"
  by pat_completeness auto
termination
  by (relation "measure (\<lambda>(p, detectionId, attempts, s). maxAttempts - attempts)") auto

definition waitForDriftDetection ::
  "provider \<Rightarrow> string \<Rightarrow> state \<Rightarrow> (error + DriftStatus) \<times> state" where
  "waitForDriftDetection p detectionId s =
     waitLoop p detectionId 0 (emit [ConsoleLog MsgWaiting] s)"

text \<open>
  \<open>getDriftDetails\<close> (lines 130-138). The value is \<open>None\<close> when the parsed reply has
  no \<open>StackResourceDrifts\<close>: the source then returns undefined and throws nothing.
\<close>

definition getDriftDetails ::
  "provider \<Rightarrow> state \<Rightarrow> (error + ResourceDrift list option) \<times> state" where
  "getDriftDetails p s =
     (let s1 = emit [Exec (DescribeStackResourceDrifts (stackName s))] s in
      case describeResourceDrifts p (calls isDescribeResourceDrifts s) (stackName s) of
        Inr ds \<Rightarrow> (Inr ds, s1)
      | Inl msg \<Rightarrow>
          (Inl (ExecError msg), emit [ConsoleError MsgDetailsFailed (ExecError msg)] s1))"

text \<open>
  \<open>displayDriftReport\<close> (lines 154-184): only console output. The rendering of the
  timestamp by \<open>toLocaleString\<close> is left to the console; the event carries the raw
  \<open>Timestamp\<close>.
\<close>

definition resourceLines :: "ResourceDrift \<Rightarrow> event list" where
  "resourceLines r =
     [ConsoleLog (MsgResource (LogicalResourceId r) (ResourceType r)),
      ConsoleLog (MsgPhysicalId (PhysicalResourceId r))]"

definition differenceLines :: "ResourceDrift \<Rightarrow> event list" where
  "differenceLines r =
     (case PropertyDifferences r of
        None \<Rightarrow> []
      | Some diffs \<Rightarrow>
          if 0 < length diffs then
            ConsoleLog MsgDiffHeader
              # map (\<lambda>d. ConsoleLog (MsgDiff (PropertyPath d) (DifferenceType d))) diffs
          else [])"

definition displayDriftReport :: "DriftStatus \<Rightarrow> DriftAnalysis \<Rightarrow> state \<Rightarrow> state" where
  "displayDriftReport driftStatus analysis s =
     emit
       ([ConsoleLog MsgReportTitle,
         ConsoleLog MsgReportRule,
         ConsoleLog (MsgStackState (StackDriftStatus driftStatus)),
         ConsoleLog (MsgDetectedAt (Timestamp driftStatus)),
         ConsoleLog (MsgTotalResources (total analysis)),
         ConsoleLog (MsgInSyncResources (inSync analysis)),
         ConsoleLog (MsgDriftedResources (drifted analysis))]
        @ (if 0 < length (deleted analysis) then
             ConsoleLog MsgDeletedHeader # concat (map resourceLines (deleted analysis))
           else [])
        @ (if 0 < length (modified analysis) then
             ConsoleLog MsgModifiedHeader
               # concat (map (\<lambda>r. resourceLines r @ differenceLines r) (modified analysis))
           else [])) s"

text \<open>
  \<open>askForRepair\<close> (lines 187-201). \<open>toLowerCase\<close> acts on the ASCII capitals; no other
  character is mapped to a letter of \<open>y\<close>, \<open>yes\<close>. \<open>saysYes\<close> is the test of line 198.
  The promise of line 195 is settled only by the callback of \<open>rl.question\<close>: the value
  is \<open>None\<close> when the question is never answered, and the caller then waits for ever.
\<close>

definition toLowerCase :: "string \<Rightarrow> string" where
  "toLowerCase =
     map (\<lambda>c. case map_of (zip ''ABCDEFGHIJKLMNOPQRSTUVWXYZ''
                                  ''abcdefghijklmnopqrstuvwxyz'') c of
                 Some l \<Rightarrow> l
               | None \<Rightarrow> c)"

definition saysYes :: "string \<Rightarrow> bool" where
  "saysYes a = (toLowerCase a = ''y'' \<or> toLowerCase a = ''yes'')"

definition askForRepair :: "provider \<Rightarrow> DriftAnalysis \<Rightarrow> state \<Rightarrow> bool option \<times> state" where
  "askForRepair p analysis s =
     (if drifted analysis = 0 then (Some False, emit [ConsoleLog MsgNoRepairNeeded] s)
      else
        (let s1 = createReadlineInterface (emit [ConsoleLog MsgDriftDetected] s) in
         case answer p (questions s1) of
           None \<Rightarrow> (None, emit [RlQuestion] s1)
         | Some a \<Rightarrow> (Some (saysYes a), emit [RlQuestion] s1)))"

text \<open>
  \<open>repairDrift\<close> (lines 204-230). \<open>repairDriftTry\<close> is the body of the \<open>try\<close> block;
  the \<open>catch\<close> block logs the error and returns \<open>false\<close>.
\<close>

definition repairDriftTry :: "provider \<Rightarrow> state \<Rightarrow> (error + bool) \<times> state" where
  "repairDriftTry p s =
     (let s1 = emit [ConsoleLog MsgRedeploying, Exec CdkDeploy] s in
      case cdkDeploy p (calls isCdkDeploy s) of
        Some msg \<Rightarrow> (Inl (ExecError msg), s1)
      | None \<Rightarrow>
          (case startDriftDetection p
                  (emit [ConsoleLog MsgRepairDone, ConsoleLog MsgVerifying] s1) of
             (Inl e, s2) \<Rightarrow> (Inl e, s2)
           | (Inr detectionId, s2) \<Rightarrow>
               (case waitForDriftDetection p detectionId s2 of
                  (Inl e, s3) \<Rightarrow> (Inl e, s3)
                | (Inr driftStatus, s3) \<Rightarrow>
                    if StackDriftStatus driftStatus = IN_SYNC
                    then (Inr True, emit [ConsoleLog MsgRepairVerified] s3)
                    else (Inr False, emit [ConsoleLog MsgDriftRemains] s3))))"

definition repairDrift :: "provider \<Rightarrow> state \<Rightarrow> (error + bool) \<times> state" where
  "repairDrift p s =
     (case repairDriftTry p (emit [ConsoleLog MsgRepairStarting] s) of
        (Inl e, s1) \<Rightarrow> (Inr False, emit [ConsoleError MsgRepairFailed e] s1)
      | (Inr b, s1) \<Rightarrow> (Inr b, s1))"

text \<open>
  The object returned by \<open>detectAndReport\<close>; the last three fields are absent in the
  early return of line 239. \<open>detectAndRepair\<close> spreads it and adds two fields.
\<close>

record report_result =
  needsRepair :: bool
  stackExists :: bool
  driftStatus :: "DriftStatus option"
  analysis :: "DriftAnalysis option"
  drifts :: "ResourceDrift list option"

record repair_result = report_result +
  repairAttempted :: bool
  repairSuccess :: bool

text \<open>
  \<open>detectAndReport\<close> (lines 233-273). \<open>detectAndReportTry\<close> is the body of the \<open>try\<close>
  block; the \<open>catch\<close> block logs and rethrows, the \<open>finally\<close> block runs \<open>cleanup\<close>
  on every exit. The value is \<open>Some\<close> of what the function returns or throws, and
  \<open>None\<close> when it waits for ever on an unanswered question: neither the \<open>catch\<close> nor
  the \<open>finally\<close> block is then reached. \<open>analyzeDrifts\<close> applied to undefined throws
  at \<open>drifts.length\<close>.
\<close>

definition detectAndReportTry ::
  "provider \<Rightarrow> state \<Rightarrow> (error + report_result) option \<times> state" where
  "detectAndReportTry p s =
     (case checkStackExists p s of
        (Inl e, s1) \<Rightarrow> (Some (Inl e), s1)
      | (Inr exists, s1) \<Rightarrow>
          if \<not> exists then
            (Some (Inr \<lparr> needsRepair = False, stackExists = False,
                         driftStatus = None, analysis = None, drifts = None \<rparr>),
             emit [ConsoleLog (MsgStackMissing (stackName s1))] s1)
          else
            (case startDriftDetection p s1 of
               (Inl e, s2) \<Rightarrow> (Some (Inl e), s2)
             | (Inr detectionId, s2) \<Rightarrow>
                 (case waitForDriftDetection p detectionId s2 of
                    (Inl e, s3) \<Rightarrow> (Some (Inl e), s3)
                  | (Inr status, s3) \<Rightarrow>
                      (case getDriftDetails p (emit [ConsoleLog MsgDetectionDone] s3) of
                         (Inl e, s4) \<Rightarrow> (Some (Inl e), s4)
                       | (Inr None, s4) \<Rightarrow> (Some (Inl TypeError), s4)
                       | (Inr (Some ds), s4) \<Rightarrow>
                           (let a = analyzeDrifts ds in
                            case askForRepair p a (displayDriftReport status a s4) of
                              (None, s5) \<Rightarrow> (None, s5)
                            | (Some shouldRepair, s5) \<Rightarrow>
                                (Some (Inr \<lparr> needsRepair = shouldRepair, stackExists = True,
                                             driftStatus = Some status, analysis = Some a,
                                             drifts = Some ds \<rparr>), s5))))))"

definition detectAndReport ::
  "provider \<Rightarrow> state \<Rightarrow> (error + report_result) option \<times> state" where
  "detectAndReport p s =
     (case detectAndReportTry p s of
        (None, s1) \<Rightarrow> (None, s1)
      | (Some (Inl e), s1) \<Rightarrow>
          (Some (Inl e), cleanup (emit [ConsoleError MsgDetectionProcessFailed e] s1))
      | (Some (Inr r), s1) \<Rightarrow> (Some (Inr r), cleanup s1))"

text \<open>\<open>detectAndRepair\<close> (lines 276-293).\<close>

definition withRepair :: "report_result \<Rightarrow> bool \<Rightarrow> bool \<Rightarrow> repair_result" where
  "withRepair r attempted success =
     \<lparr> needsRepair = needsRepair r, stackExists = stackExists r,
       driftStatus = driftStatus r, analysis = analysis r, drifts = drifts r,
       repairAttempted = attempted, repairSuccess = success \<rparr>"

definition detectAndRepair ::
  "provider \<Rightarrow> state \<Rightarrow> (error + repair_result) option \<times> state" where
  "detectAndRepair p s =
     (case detectAndReport p s of
        (None, s1) \<Rightarrow> (None, s1)
      | (Some (Inl e), s1) \<Rightarrow> (Some (Inl e), s1)
      | (Some (Inr result), s1) \<Rightarrow>
          if needsRepair result then
            (case repairDrift p s1 of
               (Inl e, s2) \<Rightarrow> (Some (Inl e), s2)
             | (Inr success, s2) \<Rightarrow> (Some (Inr (withRepair result True success)), s2))
          else (Some (Inr (withRepair result False False)), s1))"

text \<open>
  The driver run when the script is the main module (lines 297-315): the value is
  \<open>Some\<close> of the argument of \<open>process.exit\<close>, and \<open>None\<close> when the promise of
  \<open>detectAndRepair\<close> never settles, so that neither callback runs and \<open>process.exit\<close>
  is not called.
\<close>

definition exitCode :: "repair_result \<Rightarrow> nat" where
  "exitCode result =
     (if stackExists result \<and> (\<not> needsRepair result \<or> repairSuccess result) then 0 else 1)"

definition resultLines :: "repair_result \<Rightarrow> event list" where
  "resultLines result =
     [ConsoleLog MsgFinalResult, ConsoleLog (MsgStackExists (stackExists result))]
     @ (if stackExists result then
          ConsoleLog (MsgRepairAttempted (repairAttempted result))
            # (if repairAttempted result
               then [ConsoleLog (MsgRepairSucceeded (repairSuccess result))] else [])
        else [])"

definition driver :: "provider \<Rightarrow> nat option \<times> state" where
  "driver p =
     (case detectAndRepair p (DriftDetector ''IcebergCdkStack'') of
        (None, s) \<Rightarrow> (None, s)
      | (Some (Inr result), s) \<Rightarrow> (Some (exitCode result), emit (resultLines result) s)
      | (Some (Inl e), s) \<Rightarrow> (Some 1, emit [ConsoleError MsgProgramFailed e] s))"

section \<open>Collaborator behaviours named in the properties\<close>

text \<open>A status query that answers, and reports a detection still in progress.\<close>

definition inProgress :: "string + DriftStatus \<Rightarrow> bool" where
  "inProgress r =
     (case r of Inl msg \<Rightarrow> False | Inr status \<Rightarrow> DetectionStatus status = DETECTION_IN_PROGRESS)"

text \<open>The events of one unsuccessful round of the poll loop: query, sleep, progress dot.\<close>

definition pollRound :: "string \<Rightarrow> event list" where
  "pollRound detectionId =
     [Exec (DescribeStackDriftDetectionStatus detectionId), Sleep 10000, StdoutWrite ''.'']"

section \<open>Sample data and sample collaborators\<close>

definition sampleStatus :: "DetectionStatus \<Rightarrow> StackDriftStatus \<Rightarrow> string option \<Rightarrow> DriftStatus" where
  "sampleStatus d st r =
     \<lparr> StackDriftStatus = st, DetectionStatus = d, DriftedStackResourceCount = None,
       Timestamp = ''2024-05-01T09:00:00Z'', StatusReason = r \<rparr>"

definition sampleResource ::
  "string \<Rightarrow> StackResourceDriftStatus \<Rightarrow> PropertyDifference list option \<Rightarrow> ResourceDrift" where
  "sampleResource name st diffs =
     \<lparr> LogicalResourceId = name, PhysicalResourceId = ''phys-'' @ name,
       ResourceType = ''AWS::Sample::Resource'', StackResourceDriftStatus = st,
       PropertyDifferences = diffs, ResourceTimestamp = ''2024-05-01T09:00:00Z'' \<rparr>"

text \<open>One deleted, one modified, one in-sync and one unchecked resource.\<close>

definition sampleDrifts :: "ResourceDrift list" where
  "sampleDrifts =
     [sampleResource ''BucketX'' R_DELETED None,
      sampleResource ''Workgroup1'' R_MODIFIED
        (Some [\<lparr> PropertyPath = ''/engineVersion'', DifferenceType = ''NOT_EQUAL'',
                 ActualValue = Some ''2'', ExpectedValue = Some ''3'' \<rparr>]),
      sampleResource ''Database1'' R_IN_SYNC None,
      sampleResource ''Table1'' R_NOT_CHECKED None]"

text \<open>A stack that exists and is in sync; the user would answer no.\<close>

definition okProvider :: provider where
  "okProvider =
     \<lparr> describeStacks = (\<lambda>n name. Inr 1),
       detectStackDrift = (\<lambda>n name. Inr ''detection-1''),
       describeStatus = (\<lambda>n i. Inr (sampleStatus DETECTION_COMPLETE IN_SYNC None)),
       describeResourceDrifts =
         (\<lambda>n name. Inr (Some [sampleResource ''Database1'' R_IN_SYNC None])),
       cdkDeploy = (\<lambda>n. None),
       answer = (\<lambda>n. Some ''n'') \<rparr>"

text \<open>A detection that never completes.\<close>

definition stuckProvider :: provider where
  "stuckProvider =
     okProvider\<lparr>describeStatus :=
       (\<lambda>n i. Inr (sampleStatus DETECTION_IN_PROGRESS NOT_CHECKED None))\<rparr>"

text \<open>A detection reported as failed, with a reason.\<close>

definition failedProvider :: provider where
  "failedProvider =
     okProvider\<lparr>describeStatus :=
       (\<lambda>n i. Inr (sampleStatus DETECTION_FAILED UNKNOWN (Some ''Rate exceeded'')))\<rparr>"

text \<open>A status query that answers twice and then fails.\<close>

definition flakyProvider :: provider where
  "flakyProvider =
     okProvider\<lparr>describeStatus :=
       (\<lambda>n i. if n < 2 then Inr (sampleStatus DETECTION_IN_PROGRESS NOT_CHECKED None)
               else Inl ''Could not connect to the endpoint URL'')\<rparr>"

text \<open>No such stack.\<close>

definition missingStackProvider :: provider where
  "missingStackProvider =
     okProvider\<lparr>describeStacks :=
       (\<lambda>n name. Inl ''Stack with id IcebergCdkStack does not exist'')\<rparr>"

text \<open>A drifted stack; the user declines the repair.\<close>

definition driftedProvider :: provider where
  "driftedProvider =
     okProvider\<lparr>describeStatus := (\<lambda>n i. Inr (sampleStatus DETECTION_COMPLETE DRIFTED None)),
                describeResourceDrifts := (\<lambda>n name. Inr (Some sampleDrifts))\<rparr>"

text \<open>A redeploy that fails.\<close>

definition deployFailsProvider :: provider where
  "deployFailsProvider = okProvider\<lparr>cdkDeploy := (\<lambda>n. Some ''cdk deploy: exit status 1'')\<rparr>"

text \<open>A redeploy that succeeds and leaves the stack drifted.\<close>

definition stillDriftedProvider :: provider where
  "stillDriftedProvider =
     okProvider\<lparr>describeStatus := (\<lambda>n i. Inr (sampleStatus DETECTION_COMPLETE DRIFTED None))\<rparr>"

text \<open>A detection that cannot be started.\<close>

definition startFailsProvider :: provider where
  "startFailsProvider =
     okProvider\<lparr>detectStackDrift := (\<lambda>n name. Inl ''Rate exceeded'')\<rparr>"


text \<open>A drifted stack; the question is never answered.\<close>

definition silentProvider :: provider where
  "silentProvider = driftedProvider\<lparr>answer := (\<lambda>n. None)\<rparr>"

section \<open>Properties of the classification\<close>

lemma countStatus_filter:
  "countStatus st ds = length (filter (\<lambda>d. StackResourceDriftStatus d = st) ds)"
  by (induction ds) (simp_all add: countStatus_def)

lemma length_filter_modified_or_deleted:
  "length (filter (\<lambda>d. StackResourceDriftStatus d = R_MODIFIED
                         \<or> StackResourceDriftStatus d = R_DELETED) ds)
   = countStatus R_DELETED ds + countStatus R_MODIFIED ds"
  by (induction ds) (auto simp add: countStatus_def)

lemma countStatus_partition:
  "length ds = countStatus R_IN_SYNC ds + countStatus R_MODIFIED ds
                 + countStatus R_DELETED ds + countStatus R_NOT_CHECKED ds"
proof (induction ds)
  case Nil
  show ?case by (simp add: countStatus_def)
next
  case (Cons d ds')
  then show ?case
    by (cases "StackResourceDriftStatus d") (simp_all add: countStatus_def)
qed

text \<open>
  Claim C1. For every batch of resource drifts, \<open>analyzeDrifts\<close> returns \<open>total\<close> equal to
  the length of the batch, \<open>drifted\<close> equal to the number of deleted plus the number of
  modified records and \<open>inSync\<close> equal to the number of in-sync records; unchecked
  records are counted in \<open>total\<close> and in neither \<open>inSync\<close> nor \<open>drifted\<close>; the lists
  \<open>deleted\<close> and \<open>modified\<close> are subsequences of the batch (the input order is kept)
  that hold exactly the deleted and the modified records, with their multiplicities.
\<close>

theorem analyzeDrifts_classification:
  "total (analyzeDrifts ds) = length ds
   \<and> drifted (analyzeDrifts ds) = countStatus R_DELETED ds + countStatus R_MODIFIED ds
   \<and> inSync (analyzeDrifts ds) = countStatus R_IN_SYNC ds
   \<and> total (analyzeDrifts ds)
       = inSync (analyzeDrifts ds) + drifted (analyzeDrifts ds) + countStatus R_NOT_CHECKED ds
   \<and> subseq (deleted (analyzeDrifts ds)) ds
   \<and> mset (deleted (analyzeDrifts ds))
       = filter_mset (\<lambda>d. StackResourceDriftStatus d = R_DELETED) (mset ds)
   \<and> subseq (modified (analyzeDrifts ds)) ds
   \<and> mset (modified (analyzeDrifts ds))
       = filter_mset (\<lambda>d. StackResourceDriftStatus d = R_MODIFIED) (mset ds)"
proof -
  have parts: "length ds = countStatus R_IN_SYNC ds + countStatus R_MODIFIED ds
                 + countStatus R_DELETED ds + countStatus R_NOT_CHECKED ds"
    by (rule countStatus_partition)
  have d: "drifted (analyzeDrifts ds) = countStatus R_DELETED ds + countStatus R_MODIFIED ds"
    by (simp add: analyzeDrifts_def length_filter_modified_or_deleted)
  have i: "inSync (analyzeDrifts ds) = countStatus R_IN_SYNC ds"
    by (simp add: analyzeDrifts_def countStatus_filter)
  have t: "total (analyzeDrifts ds) = length ds"
    by (simp add: analyzeDrifts_def)
  have sum: "total (analyzeDrifts ds)
       = inSync (analyzeDrifts ds) + drifted (analyzeDrifts ds) + countStatus R_NOT_CHECKED ds"
    using parts by (simp only: d i t)
  have del: "deleted (analyzeDrifts ds) = filter (\<lambda>d. StackResourceDriftStatus d = R_DELETED) ds"
    by (simp add: analyzeDrifts_def)
  have mod: "modified (analyzeDrifts ds) = filter (\<lambda>d. StackResourceDriftStatus d = R_MODIFIED) ds"
    by (simp add: analyzeDrifts_def)
  show ?thesis
    using d i t sum by (simp add: del mod)
qed

theorem analyzeDrifts_classification_witness:
  "total (analyzeDrifts sampleDrifts) = 4
   \<and> drifted (analyzeDrifts sampleDrifts) = 2
   \<and> inSync (analyzeDrifts sampleDrifts) = 1
   \<and> countStatus R_NOT_CHECKED sampleDrifts = 1
   \<and> map LogicalResourceId (deleted (analyzeDrifts sampleDrifts)) = [''BucketX'']
   \<and> map LogicalResourceId (modified (analyzeDrifts sampleDrifts)) = [''Workgroup1'']"
  using analyzeDrifts_classification [of sampleDrifts]
  by (simp add: sampleDrifts_def sampleResource_def countStatus_def analyzeDrifts_def)

text \<open>
  Claim C2, as stated: \<open>total = inSync + drifted\<close> for every batch. It fails on a batch
  with one unchecked resource, which \<open>total\<close> counts and neither other field does.
\<close>

theorem analyzeDrifts_total_counterexample:
  "total (analyzeDrifts [sampleResource ''Table1'' R_NOT_CHECKED None])
     \<noteq> inSync (analyzeDrifts [sampleResource ''Table1'' R_NOT_CHECKED None])
       + drifted (analyzeDrifts [sampleResource ''Table1'' R_NOT_CHECKED None])"
  by (simp add: analyzeDrifts_def sampleResource_def)

text \<open>
  Claim C2, amended. For every batch, \<open>drifted\<close> is the length of \<open>deleted\<close> plus the
  length of \<open>modified\<close>, and \<open>total\<close> is \<open>inSync + drifted\<close> plus the number of
  unchecked records; so \<open>total = inSync + drifted\<close> holds exactly for the batches with
  no unchecked record.
\<close>

theorem analyzeDrifts_invariants:
  "drifted (analyzeDrifts ds)
     = length (deleted (analyzeDrifts ds)) + length (modified (analyzeDrifts ds))
   \<and> total (analyzeDrifts ds)
     = inSync (analyzeDrifts ds) + drifted (analyzeDrifts ds) + countStatus R_NOT_CHECKED ds
   \<and> ((total (analyzeDrifts ds) = inSync (analyzeDrifts ds) + drifted (analyzeDrifts ds))
        = (countStatus R_NOT_CHECKED ds = 0))"
proof -
  have d: "drifted (analyzeDrifts ds) = countStatus R_DELETED ds + countStatus R_MODIFIED ds"
    by (simp add: analyzeDrifts_def length_filter_modified_or_deleted)
  have l: "length (deleted (analyzeDrifts ds)) = countStatus R_DELETED ds"
          "length (modified (analyzeDrifts ds)) = countStatus R_MODIFIED ds"
    by (simp_all add: analyzeDrifts_def countStatus_filter)
  have i: "inSync (analyzeDrifts ds) = countStatus R_IN_SYNC ds"
    by (simp add: analyzeDrifts_def countStatus_filter)
  have t: "total (analyzeDrifts ds) = length ds"
    by (simp add: analyzeDrifts_def)
  show ?thesis
    using countStatus_partition [of ds] by (simp add: d l i t)
qed

theorem analyzeDrifts_invariants_witness:
  "drifted (analyzeDrifts sampleDrifts) = 1 + 1
   \<and> total (analyzeDrifts sampleDrifts) = 1 + 2 + 1
   \<and> total (analyzeDrifts sampleDrifts)
        \<noteq> inSync (analyzeDrifts sampleDrifts) + drifted (analyzeDrifts sampleDrifts)"
  using analyzeDrifts_invariants [of sampleDrifts]
  by (simp add: sampleDrifts_def sampleResource_def countStatus_def analyzeDrifts_def)

section \<open>Properties of the trace\<close>

lemma trace_emit [simp]: "trace (emit es s) = trace s @ es"
  by (simp add: emit_def)

lemma stackName_emit [simp]: "stackName (emit es s) = stackName s"
  by (simp add: emit_def)

lemma rl_emit [simp]: "rl (emit es s) = rl s"
  by (simp add: emit_def)

lemma emit_emit: "emit es' (emit es s) = emit (es @ es') s"
  by (simp add: emit_def)

lemma emit_Nil [simp]: "emit [] s = s"
  by (simp add: emit_def)

lemma calls_emit:
  "calls k (emit es s)
     = calls k s + length (filter (\<lambda>e. case e of Exec c \<Rightarrow> k c | _ \<Rightarrow> False) es)"
  by (simp add: calls_def)

lemma questions_emit: "questions (emit es s) = questions s + count_list es RlQuestion"
  by (simp add: questions_def)

section \<open>The readline interface\<close>

text \<open>
  Claim C8. Running \<open>cleanup\<close> twice leaves the detector and the trace as running it
  once does: the first run drops the interface, so the second closes nothing.
\<close>

theorem cleanup_idempotent:
  "cleanup (cleanup s) = cleanup s
   \<and> rl (cleanup s) = False
   \<and> trace (cleanup (cleanup s)) = trace (cleanup s)"
  by (simp add: cleanup_def emit_def)

theorem cleanup_idempotent_witness:
  "cleanup (cleanup (createReadlineInterface (DriftDetector ''IcebergCdkStack'')))
     = \<lparr> stackName = ''IcebergCdkStack'', rl = False, trace = [RlCreate, RlClose] \<rparr>
   \<and> cleanup (createReadlineInterface (DriftDetector ''IcebergCdkStack''))
     = \<lparr> stackName = ''IcebergCdkStack'', rl = False, trace = [RlCreate, RlClose] \<rparr>"
  using cleanup_idempotent [of "createReadlineInterface (DriftDetector ''IcebergCdkStack'')"]
  by (simp add: cleanup_def createReadlineInterface_def DriftDetector_def emit_def)

section \<open>The poll loop\<close>

declare waitLoop.simps [simp del]

lemma calls_status_pollRound:
  "calls isDescribeStatus (emit (pollRound i) s) = calls isDescribeStatus s + 1"
  by (simp add: calls_emit pollRound_def)

lemma waitLoop_exhausted:
  "maxAttempts \<le> a \<Longrightarrow> waitLoop p i a s = (Inl DetectionTimeoutError, s)"
  by (simp add: waitLoop.simps)

lemma waitLoop_in_progress:
  assumes "a < maxAttempts"
    and "inProgress (describeStatus p (calls isDescribeStatus s) i)"
  shows "waitLoop p i a s = waitLoop p i (a + 1) (emit (pollRound i) s)"
proof -
  from assms(2) obtain status
    where r: "describeStatus p (calls isDescribeStatus s) i = Inr status"
      and st: "DetectionStatus status = DETECTION_IN_PROGRESS"
    by (auto simp add: inProgress_def split: sum.splits)
  show ?thesis
    using assms(1) by (subst waitLoop.simps) (simp add: r st emit_emit pollRound_def)
qed

lemma waitLoop_error:
  assumes "a < maxAttempts"
    and "describeStatus p (calls isDescribeStatus s) i = Inl msg"
  shows "waitLoop p i a s
         = (Inl (ExecError msg),
            emit [Exec (DescribeStackDriftDetectionStatus i),
                  ConsoleError MsgStatusCheckFailed (ExecError msg)] s)"
  using assms by (subst waitLoop.simps) (simp add: emit_emit)

lemma waitLoop_failed:
  assumes "a < maxAttempts"
    and "describeStatus p (calls isDescribeStatus s) i = Inr status"
    and "DetectionStatus status = DETECTION_FAILED"
  shows "waitLoop p i a s
         = (Inl (DetectionFailedError (orUnknown (StatusReason status))),
            emit [Exec (DescribeStackDriftDetectionStatus i),
                  ConsoleError MsgStatusCheckFailed
                    (DetectionFailedError (orUnknown (StatusReason status)))] s)"
  using assms by (subst waitLoop.simps) (simp add: emit_emit)

lemma waitLoop_complete:
  assumes "a < maxAttempts"
    and "describeStatus p (calls isDescribeStatus s) i = Inr status"
    and "DetectionStatus status = DETECTION_COMPLETE"
  shows "waitLoop p i a s = (Inr status, emit [Exec (DescribeStackDriftDetectionStatus i)] s)"
  using assms by (subst waitLoop.simps) simp

text \<open>
  From any point of the loop, \<open>k\<close> polls that find the detection in progress are
  \<open>k\<close> rounds of query, sleep and dot.
\<close>

lemma waitLoop_rounds:
  assumes "a + k \<le> maxAttempts"
    and "\<forall>j<k. inProgress (describeStatus p (calls isDescribeStatus s + j) i)"
  shows "waitLoop p i a s = waitLoop p i (a + k) (emit (concat (replicate k (pollRound i))) s)"
  using assms
proof (induction k arbitrary: a s)
  case 0
  then show ?case by simp
next
  case (Suc k)
  have first: "inProgress (describeStatus p (calls isDescribeStatus s) i)"
    using Suc.prems(2) by (metis add.right_neutral zero_less_Suc)
  have rest: "\<forall>j<k. inProgress (describeStatus p (calls isDescribeStatus (emit (pollRound i) s) + j) i)"
  proof (intro allI impI)
    fix j assume "j < k"
    then have "Suc j < Suc k" by simp
    then have "inProgress (describeStatus p (calls isDescribeStatus s + Suc j) i)"
      using Suc.prems(2) by blast
    then show "inProgress (describeStatus p (calls isDescribeStatus (emit (pollRound i) s) + j) i)"
      by (simp add: calls_status_pollRound)
  qed
  have "waitLoop p i a s = waitLoop p i (a + 1) (emit (pollRound i) s)"
    using Suc.prems(1) first by (intro waitLoop_in_progress) simp_all
  also have "\<dots> = waitLoop p i (a + 1 + k)
                    (emit (concat (replicate k (pollRound i))) (emit (pollRound i) s))"
    using Suc.prems(1) rest by (intro Suc.IH) simp_all
  finally show ?case
    by (simp add: emit_emit)
qed

text \<open>
  Claim C3. When every status query reports a detection in progress,
  \<open>waitForDriftDetection\<close> ends with the timeout error after exactly 30 queries, each
  followed by a sleep of 10000 milliseconds: the events it adds are the waiting line and
  30 rounds of query, sleep and dot.
\<close>

theorem waitForDriftDetection_timeout:
  assumes "\<forall>n. inProgress (describeStatus p n detectionId)"
  shows "waitForDriftDetection p detectionId s
         = (Inl DetectionTimeoutError,
            emit (ConsoleLog MsgWaiting # concat (replicate 30 (pollRound detectionId))) s)
       \<and> calls isDescribeStatus (snd (waitForDriftDetection p detectionId s))
         = calls isDescribeStatus s + 30
       \<and> count_list (trace (snd (waitForDriftDetection p detectionId s))) (Sleep 10000)
         = count_list (trace s) (Sleep 10000) + 30"
proof -
  let ?s0 = "emit [ConsoleLog MsgWaiting] s"
  let ?rounds = "concat (replicate 30 (pollRound detectionId))"
  have "waitLoop p detectionId 0 ?s0
        = waitLoop p detectionId (0 + maxAttempts)
            (emit (concat (replicate maxAttempts (pollRound detectionId))) ?s0)"
    using assms by (intro waitLoop_rounds) simp_all
  also have "\<dots> = (Inl DetectionTimeoutError,
                     emit (concat (replicate maxAttempts (pollRound detectionId))) ?s0)"
    by (rule waitLoop_exhausted) simp
  finally have res: "waitForDriftDetection p detectionId s
        = (Inl DetectionTimeoutError, emit (ConsoleLog MsgWaiting # ?rounds) s)"
    by (simp add: waitForDriftDetection_def maxAttempts_def emit_emit)
  have polls: "length (filter (\<lambda>e. case e of Exec c \<Rightarrow> isDescribeStatus c | _ \<Rightarrow> False)
                 (concat (replicate n (pollRound detectionId)))) = n" for n
    by (induction n) (simp_all add: pollRound_def)
  have sleeps: "count_list (concat (replicate n (pollRound detectionId))) (Sleep 10000) = n" for n
    by (induction n) (simp_all add: pollRound_def)
  show ?thesis
    by (simp add: res calls_emit polls sleeps)
qed


lemma calls_status_rounds:
  "length (filter (\<lambda>e. case e of Exec c \<Rightarrow> isDescribeStatus c | _ \<Rightarrow> False)
     (concat (replicate n (pollRound i)))) = n"
  by (induction n) (simp_all add: pollRound_def)

lemma calls_DriftDetector [simp]: "calls k (DriftDetector name) = 0"
  by (simp add: calls_def DriftDetector_def)

lemma trace_DriftDetector [simp]: "trace (DriftDetector name) = []"
  by (simp add: DriftDetector_def)

theorem waitForDriftDetection_timeout_witness:
  "(\<forall>n. inProgress (describeStatus stuckProvider n ''detection-1''))
   \<and> fst (waitForDriftDetection stuckProvider ''detection-1'' (DriftDetector ''IcebergCdkStack''))
       = Inl DetectionTimeoutError
   \<and> calls isDescribeStatus
        (snd (waitForDriftDetection stuckProvider ''detection-1'' (DriftDetector ''IcebergCdkStack'')))
       = 30
   \<and> count_list
        (trace (snd (waitForDriftDetection stuckProvider ''detection-1''
                       (DriftDetector ''IcebergCdkStack''))))
        (Sleep 10000) = 30"
proof -
  have h: "\<forall>n. inProgress (describeStatus stuckProvider n ''detection-1'')"
    by (simp add: stuckProvider_def okProvider_def inProgress_def sampleStatus_def)
  note run = waitForDriftDetection_timeout [OF h, of "DriftDetector ''IcebergCdkStack''"]
  have r: "fst (waitForDriftDetection stuckProvider ''detection-1''
                  (DriftDetector ''IcebergCdkStack'')) = Inl DetectionTimeoutError"
    using run by simp
  show ?thesis
    using h r run [THEN conjunct2, THEN conjunct1] run [THEN conjunct2, THEN conjunct2]
    by simp
qed

text \<open>
  Claim C6. When the first status query reports a failed detection,
  \<open>waitForDriftDetection\<close> fails at once with the detection-failed error, which carries
  the reported reason (the fallback text when no reason or an empty one is reported);
  it has run one query and no sleep.
\<close>

theorem waitForDriftDetection_failed_first_poll:
  assumes "describeStatus p (calls isDescribeStatus s) detectionId = Inr status"
    and "DetectionStatus status = DETECTION_FAILED"
  shows "waitForDriftDetection p detectionId s
         = (Inl (DetectionFailedError (orUnknown (StatusReason status))),
            emit [ConsoleLog MsgWaiting,
                  Exec (DescribeStackDriftDetectionStatus detectionId),
                  ConsoleError MsgStatusCheckFailed
                    (DetectionFailedError (orUnknown (StatusReason status)))] s)
       \<and> calls isDescribeStatus (snd (waitForDriftDetection p detectionId s))
         = calls isDescribeStatus s + 1
       \<and> (\<forall>r. StatusReason status = Some r \<and> r \<noteq> []
              \<longrightarrow> fst (waitForDriftDetection p detectionId s)
                    = Inl (DetectionFailedError (Some r)))"
proof -
  let ?s0 = "emit [ConsoleLog MsgWaiting] s"
  have q: "describeStatus p (calls isDescribeStatus ?s0) detectionId = Inr status"
    using assms(1) by (simp add: calls_emit)
  have res: "waitForDriftDetection p detectionId s
         = (Inl (DetectionFailedError (orUnknown (StatusReason status))),
            emit [ConsoleLog MsgWaiting,
                  Exec (DescribeStackDriftDetectionStatus detectionId),
                  ConsoleError MsgStatusCheckFailed
                    (DetectionFailedError (orUnknown (StatusReason status)))] s)"
    unfolding waitForDriftDetection_def
    by (subst waitLoop_failed [OF _ q assms(2)]) (simp_all add: maxAttempts_def emit_emit)
  show ?thesis
    by (simp add: res calls_emit orUnknown_def)
qed

theorem waitForDriftDetection_failed_first_poll_witness:
  "describeStatus failedProvider 0 ''detection-1''
     = Inr (sampleStatus DETECTION_FAILED UNKNOWN (Some ''Rate exceeded''))
   \<and> waitForDriftDetection failedProvider ''detection-1'' (DriftDetector ''IcebergCdkStack'')
     = (Inl (DetectionFailedError (Some ''Rate exceeded'')),
        \<lparr> stackName = ''IcebergCdkStack'', rl = False,
          trace = [ConsoleLog MsgWaiting,
                   Exec (DescribeStackDriftDetectionStatus ''detection-1''),
                   ConsoleError MsgStatusCheckFailed
                     (DetectionFailedError (Some ''Rate exceeded''))] \<rparr>)"
  using waitForDriftDetection_failed_first_poll
          [of failedProvider "DriftDetector ''IcebergCdkStack''" "''detection-1''"
              "sampleStatus DETECTION_FAILED UNKNOWN (Some ''Rate exceeded'')"]
  by (simp add: failedProvider_def okProvider_def sampleStatus_def DriftDetector_def
        calls_def emit_def orUnknown_def)

text \<open>
  Claim C10. When the status query itself fails on an attempt within the budget, after
  \<open>k\<close> queries that found the detection in progress, \<open>waitForDriftDetection\<close> fails
  with that error: the failing query is the last one it runs, \<open>k + 1\<close> in all.
\<close>

theorem waitForDriftDetection_query_error:
  assumes "k < 30"
    and "\<forall>j<k. inProgress (describeStatus p (calls isDescribeStatus s + j) detectionId)"
    and "describeStatus p (calls isDescribeStatus s + k) detectionId = Inl msg"
  shows "waitForDriftDetection p detectionId s
         = (Inl (ExecError msg),
            emit (ConsoleLog MsgWaiting # concat (replicate k (pollRound detectionId))
                  @ [Exec (DescribeStackDriftDetectionStatus detectionId),
                     ConsoleError MsgStatusCheckFailed (ExecError msg)]) s)
       \<and> calls isDescribeStatus (snd (waitForDriftDetection p detectionId s))
         = calls isDescribeStatus s + k + 1"
proof -
  let ?s0 = "emit [ConsoleLog MsgWaiting] s"
  let ?s1 = "emit (concat (replicate k (pollRound detectionId))) ?s0"
  have c0: "calls isDescribeStatus ?s0 = calls isDescribeStatus s"
    by (simp add: calls_emit)
  have c1: "calls isDescribeStatus ?s1 = calls isDescribeStatus s + k"
    by (simp add: calls_emit calls_status_rounds)
  have "waitLoop p detectionId 0 ?s0 = waitLoop p detectionId (0 + k) ?s1"
    using assms(1,2) by (intro waitLoop_rounds) (simp_all add: maxAttempts_def c0)
  also have "\<dots> = (Inl (ExecError msg),
                     emit [Exec (DescribeStackDriftDetectionStatus detectionId),
                           ConsoleError MsgStatusCheckFailed (ExecError msg)] ?s1)"
    using assms(1,3) by (intro waitLoop_error) (simp_all add: maxAttempts_def c1)
  finally have res: "waitForDriftDetection p detectionId s
         = (Inl (ExecError msg),
            emit (ConsoleLog MsgWaiting # concat (replicate k (pollRound detectionId))
                  @ [Exec (DescribeStackDriftDetectionStatus detectionId),
                     ConsoleError MsgStatusCheckFailed (ExecError msg)]) s)"
    by (simp add: waitForDriftDetection_def emit_emit)
  show ?thesis
    by (simp add: res calls_emit calls_status_rounds)
qed

theorem waitForDriftDetection_query_error_witness:
  "inProgress (describeStatus flakyProvider 0 ''detection-1'')
   \<and> inProgress (describeStatus flakyProvider 1 ''detection-1'')
   \<and> describeStatus flakyProvider 2 ''detection-1'' = Inl ''Could not connect to the endpoint URL''
   \<and> waitForDriftDetection flakyProvider ''detection-1'' (DriftDetector ''IcebergCdkStack'')
     = (Inl (ExecError ''Could not connect to the endpoint URL''),
        \<lparr> stackName = ''IcebergCdkStack'', rl = False,
          trace = [ConsoleLog MsgWaiting,
                   Exec (DescribeStackDriftDetectionStatus ''detection-1''),
                   Sleep 10000, StdoutWrite ''.'',
                   Exec (DescribeStackDriftDetectionStatus ''detection-1''),
                   Sleep 10000, StdoutWrite ''.'',
                   Exec (DescribeStackDriftDetectionStatus ''detection-1''),
                   ConsoleError MsgStatusCheckFailed
                     (ExecError ''Could not connect to the endpoint URL'')] \<rparr>)"
proof -
  have h: "\<forall>j<2. inProgress (describeStatus flakyProvider
              (calls isDescribeStatus (DriftDetector ''IcebergCdkStack'') + j) ''detection-1'')"
    by (simp add: flakyProvider_def okProvider_def inProgress_def sampleStatus_def)
  have e: "describeStatus flakyProvider
              (calls isDescribeStatus (DriftDetector ''IcebergCdkStack'') + 2) ''detection-1''
            = Inl ''Could not connect to the endpoint URL''"
    by (simp add: flakyProvider_def okProvider_def)
  show ?thesis
    using waitForDriftDetection_query_error [OF _ h e]
    by (simp add: flakyProvider_def okProvider_def inProgress_def sampleStatus_def
          DriftDetector_def emit_def pollRound_def numeral_2_eq_2)
qed

section \<open>The detection flow\<close>

lemma calls_cleanup [simp]: "calls k (cleanup s) = calls k s"
  by (simp add: cleanup_def calls_def emit_def)

lemma questions_cleanup [simp]: "questions (cleanup s) = questions s"
  by (simp add: cleanup_def questions_def emit_def)

lemma snd_checkStackExists:
  "snd (checkStackExists p s) = emit [Exec (DescribeStacks (stackName s))] s"
  by (simp add: checkStackExists_def Let_def split: sum.splits)

text \<open>
  Claim C7. Whenever \<open>checkStackExists\<close> returns false, \<open>detectAndReport\<close> returns the
  result with \<open>stackExists\<close> and \<open>needsRepair\<close> both false; besides the stack query and
  one console line (and the \<open>cleanup\<close> of the \<open>finally\<close> block) it does nothing: it starts
  no detection, polls no status, fetches no drift details and asks no question.
\<close>

theorem detectAndReport_missing_stack:
  assumes "fst (checkStackExists p s) = Inr False"
  shows "detectAndReport p s
         = (Some (Inr \<lparr> needsRepair = False, stackExists = False,
                        driftStatus = None, analysis = None, drifts = None \<rparr>),
            cleanup (emit [Exec (DescribeStacks (stackName s)),
                           ConsoleLog (MsgStackMissing (stackName s))] s))
       \<and> calls isDetectStackDrift (snd (detectAndReport p s)) = calls isDetectStackDrift s
       \<and> calls isDescribeStatus (snd (detectAndReport p s)) = calls isDescribeStatus s
       \<and> calls isDescribeResourceDrifts (snd (detectAndReport p s))
         = calls isDescribeResourceDrifts s
       \<and> questions (snd (detectAndReport p s)) = questions s"
proof -
  have c: "checkStackExists p s = (Inr False, emit [Exec (DescribeStacks (stackName s))] s)"
    using assms snd_checkStackExists [of p s] by (simp add: prod_eq_iff)
  have res: "detectAndReport p s
         = (Some (Inr \<lparr> needsRepair = False, stackExists = False,
                        driftStatus = None, analysis = None, drifts = None \<rparr>),
            cleanup (emit [Exec (DescribeStacks (stackName s)),
                           ConsoleLog (MsgStackMissing (stackName s))] s))"
    by (simp add: detectAndReport_def detectAndReportTry_def c emit_emit)
  show ?thesis
    by (simp add: res calls_emit questions_emit)
qed

theorem detectAndReport_missing_stack_witness:
  "fst (checkStackExists missingStackProvider (DriftDetector ''IcebergCdkStack'')) = Inr False
   \<and> detectAndReport missingStackProvider (DriftDetector ''IcebergCdkStack'')
     = (Some (Inr \<lparr> needsRepair = False, stackExists = False,
                    driftStatus = None, analysis = None, drifts = None \<rparr>),
        \<lparr> stackName = ''IcebergCdkStack'', rl = False,
          trace = [Exec (DescribeStacks ''IcebergCdkStack''),
                   ConsoleLog (MsgStackMissing ''IcebergCdkStack'')] \<rparr>)"
proof -
  have h: "fst (checkStackExists missingStackProvider (DriftDetector ''IcebergCdkStack''))
           = Inr False"
    by (simp add: checkStackExists_def missingStackProvider_def okProvider_def
          sublist_Cons_right)
  show ?thesis
    using h detectAndReport_missing_stack [OF h]
    by (simp add: cleanup_def DriftDetector_def emit_def)
qed

section \<open>The repair\<close>

text \<open>
  What the poll loop returns depends on the state only through the number of status
  queries run so far.
\<close>

lemma waitLoop_fst_cong:
  "calls isDescribeStatus s = calls isDescribeStatus s'
   \<Longrightarrow> fst (waitLoop p i a s) = fst (waitLoop p i a s')"
proof (induction n \<equiv> "maxAttempts - a" arbitrary: a s s')
  case 0
  then show ?case by (simp add: waitLoop_exhausted)
next
  case (Suc n)
  then have a: "a < maxAttempts" by simp
  show ?case
  proof (cases "describeStatus p (calls isDescribeStatus s) i")
    case (Inl msg)
    then show ?thesis
      using a Suc.prems by (simp add: waitLoop_error)
  next
    case (Inr status)
    show ?thesis
    proof (cases "DetectionStatus status")
      case DETECTION_IN_PROGRESS
      have ip: "inProgress (describeStatus p (calls isDescribeStatus s) i)"
               "inProgress (describeStatus p (calls isDescribeStatus s') i)"
        using Inr DETECTION_IN_PROGRESS Suc.prems by (simp_all add: inProgress_def)
      have "fst (waitLoop p i (a + 1) (emit (pollRound i) s))
            = fst (waitLoop p i (a + 1) (emit (pollRound i) s'))"
        using Suc.hyps(2) Suc.prems
        by (intro Suc.hyps(1)) (simp_all add: calls_status_pollRound)
      then show ?thesis
        using a ip by (simp add: waitLoop_in_progress)
    next
      case DETECTION_COMPLETE
      then show ?thesis
        using a Inr Suc.prems by (simp add: waitLoop_complete)
    next
      case DETECTION_FAILED
      then show ?thesis
        using a Inr Suc.prems by (simp add: waitLoop_failed)
    qed
  qed
qed

lemma waitForDriftDetection_fst_cong:
  "calls isDescribeStatus s = calls isDescribeStatus s'
   \<Longrightarrow> fst (waitForDriftDetection p i s) = fst (waitForDriftDetection p i s')"
  unfolding waitForDriftDetection_def
  by (rule waitLoop_fst_cong) (simp add: calls_emit)

text \<open>
  What \<open>repairDrift\<close> returns, in terms of the three collaborators it uses. The
  redeploy and the start of the detection run no status query, so the poll of the
  verification answers as a poll from the state before the repair does.
\<close>

lemma repairDrift_fst:
  "fst (repairDrift p s)
   = Inr (cdkDeploy p (calls isCdkDeploy s) = None
          \<and> (case detectStackDrift p (calls isDetectStackDrift s) (stackName s) of
                Inl msg \<Rightarrow> False
              | Inr i \<Rightarrow>
                  (case fst (waitForDriftDetection p i s) of
                     Inl e \<Rightarrow> False
                   | Inr status \<Rightarrow> StackDriftStatus status = IN_SYNC)))"
proof (cases "cdkDeploy p (calls isCdkDeploy s)")
  case (Some msg)
  then show ?thesis
    by (simp add: repairDrift_def repairDriftTry_def calls_emit)
next
  case None
  show ?thesis
  proof (cases "detectStackDrift p (calls isDetectStackDrift s) (stackName s)")
    case (Inl msg)
    then show ?thesis
      using None
      by (simp add: repairDrift_def repairDriftTry_def startDriftDetection_def calls_emit)
  next
    case (Inr i)
    let ?s2 = "emit [ConsoleLog MsgRepairStarting, ConsoleLog MsgRedeploying, Exec CdkDeploy,
                     ConsoleLog MsgRepairDone, ConsoleLog MsgVerifying,
                     ConsoleLog (MsgDetectionStarting (stackName s)),
                     Exec (DetectStackDrift (stackName s))] s"
    have w: "fst (waitForDriftDetection p i ?s2) = fst (waitForDriftDetection p i s)"
      by (rule waitForDriftDetection_fst_cong) (simp add: calls_emit)
    obtain r s3 where run: "waitForDriftDetection p i ?s2 = (r, s3)"
      by (cases "waitForDriftDetection p i ?s2")
    then have r: "fst (waitForDriftDetection p i s) = r"
      using w by simp
    show ?thesis
      using None Inr run
      by (cases r)
         (simp_all add: repairDrift_def repairDriftTry_def startDriftDetection_def
            calls_emit emit_emit r)
  qed
qed

lemma stackName_DriftDetector [simp]: "stackName (DriftDetector name) = name"
  by (simp add: DriftDetector_def)

lemma rl_DriftDetector [simp]: "rl (DriftDetector name) = False"
  by (simp add: DriftDetector_def)

text \<open>
  Claim C9. \<open>repairDrift\<close> always returns a boolean and never an error; it returns
  false when the redeploy fails, when the start of the detection fails, and when the
  poll of the detection ends in an error of any kind (a failed query, a detection
  reported as failed, or the timeout). The poll is the one of any state with as many
  status queries behind it as the state before the repair.
\<close>

theorem repairDrift_never_throws:
  "(fst (repairDrift p s) = Inr True \<or> fst (repairDrift p s) = Inr False)
   \<and> (\<forall>msg. cdkDeploy p (calls isCdkDeploy s) = Some msg
          \<longrightarrow> fst (repairDrift p s) = Inr False)
   \<and> (\<forall>msg. detectStackDrift p (calls isDetectStackDrift s) (stackName s) = Inl msg
          \<longrightarrow> fst (repairDrift p s) = Inr False)
   \<and> (\<forall>i e s'. detectStackDrift p (calls isDetectStackDrift s) (stackName s) = Inr i
            \<and> calls isDescribeStatus s' = calls isDescribeStatus s
            \<and> fst (waitForDriftDetection p i s') = Inl e
          \<longrightarrow> fst (repairDrift p s) = Inr False)"
proof (intro conjI allI impI)
  have "\<exists>b. fst (repairDrift p s) = Inr b"
    by (simp add: repairDrift_fst)
  then show "fst (repairDrift p s) = Inr True \<or> fst (repairDrift p s) = Inr False"
    by auto
next
  fix msg
  assume "cdkDeploy p (calls isCdkDeploy s) = Some msg"
  then show "fst (repairDrift p s) = Inr False"
    by (simp add: repairDrift_fst)
next
  fix msg
  assume "detectStackDrift p (calls isDetectStackDrift s) (stackName s) = Inl msg"
  then show "fst (repairDrift p s) = Inr False"
    by (simp add: repairDrift_fst)
next
  fix i e s'
  assume a: "detectStackDrift p (calls isDetectStackDrift s) (stackName s) = Inr i
             \<and> calls isDescribeStatus s' = calls isDescribeStatus s
             \<and> fst (waitForDriftDetection p i s') = Inl e"
  then have "fst (waitForDriftDetection p i s) = Inl e"
    using waitForDriftDetection_fst_cong [of s' s p i] by simp
  with a show "fst (repairDrift p s) = Inr False"
    by (simp add: repairDrift_fst)
qed

theorem repairDrift_never_throws_witness:
  "cdkDeploy deployFailsProvider 0 = Some ''cdk deploy: exit status 1''
   \<and> fst (repairDrift deployFailsProvider (DriftDetector ''IcebergCdkStack'')) = Inr False
   \<and> detectStackDrift startFailsProvider 0 ''IcebergCdkStack'' = Inl ''Rate exceeded''
   \<and> fst (repairDrift startFailsProvider (DriftDetector ''IcebergCdkStack'')) = Inr False
   \<and> fst (waitForDriftDetection failedProvider ''detection-1'' (DriftDetector ''IcebergCdkStack''))
       = Inl (DetectionFailedError (Some ''Rate exceeded''))
   \<and> fst (repairDrift failedProvider (DriftDetector ''IcebergCdkStack'')) = Inr False"
proof -
  let ?s = "DriftDetector ''IcebergCdkStack''"
  have d: "cdkDeploy deployFailsProvider (calls isCdkDeploy ?s) = Some ''cdk deploy: exit status 1''"
    by (simp add: deployFailsProvider_def okProvider_def)
  have st: "detectStackDrift startFailsProvider (calls isDetectStackDrift ?s) (stackName ?s)
            = Inl ''Rate exceeded''"
    by (simp add: startFailsProvider_def okProvider_def)
  have i: "detectStackDrift failedProvider (calls isDetectStackDrift ?s) (stackName ?s)
           = Inr ''detection-1''"
    by (simp add: failedProvider_def okProvider_def)
  have w: "fst (waitForDriftDetection failedProvider ''detection-1'' ?s)
           = Inl (DetectionFailedError (Some ''Rate exceeded''))"
    by (simp add: waitForDriftDetection_def waitLoop_failed [where status =
          "sampleStatus DETECTION_FAILED UNKNOWN (Some ''Rate exceeded'')"]
          maxAttempts_def calls_emit failedProvider_def okProvider_def sampleStatus_def
          orUnknown_def)
  have "fst (repairDrift deployFailsProvider ?s) = Inr False"
    using repairDrift_never_throws [of deployFailsProvider ?s] d by blast
  moreover have "fst (repairDrift startFailsProvider ?s) = Inr False"
    using repairDrift_never_throws [of startFailsProvider ?s] st by blast
  moreover have "fst (repairDrift failedProvider ?s) = Inr False"
    using repairDrift_never_throws [of failedProvider ?s] i w by blast
  ultimately show ?thesis
    using d st w by simp
qed

text \<open>
  Claim C4, as stated: an error is propagated to the caller when the redeploy itself
  fails. With a failing redeploy \<open>repairDrift\<close> logs the error and returns false.
\<close>

theorem repairDrift_redeploy_failure_counterexample:
  "cdkDeploy deployFailsProvider 0 = Some ''cdk deploy: exit status 1''
   \<and> repairDrift deployFailsProvider (DriftDetector ''IcebergCdkStack'')
     = (Inr False,
        \<lparr> stackName = ''IcebergCdkStack'', rl = False,
          trace = [ConsoleLog MsgRepairStarting, ConsoleLog MsgRedeploying, Exec CdkDeploy,
                   ConsoleError MsgRepairFailed (ExecError ''cdk deploy: exit status 1'')] \<rparr>)"
  by (simp add: repairDrift_def repairDriftTry_def deployFailsProvider_def okProvider_def
        calls_emit DriftDetector_def emit_def calls_def)

text \<open>
  Claim C4, amended. \<open>repairDrift\<close> returns true only if the redeploy succeeded and the
  detection after it completed with the status \<open>IN_SYNC\<close>; it returns false, and no
  error, when the detection after a successful redeploy completes with another status;
  and it returns false, and no error, when the redeploy itself fails.
\<close>

theorem repairDrift_outcome:
  "(fst (repairDrift p s) = Inr True
      \<longrightarrow> (\<exists>i status. cdkDeploy p (calls isCdkDeploy s) = None
             \<and> detectStackDrift p (calls isDetectStackDrift s) (stackName s) = Inr i
             \<and> fst (waitForDriftDetection p i s) = Inr status
             \<and> StackDriftStatus status = IN_SYNC))
   \<and> (\<forall>i status s'. cdkDeploy p (calls isCdkDeploy s) = None
            \<and> detectStackDrift p (calls isDetectStackDrift s) (stackName s) = Inr i
            \<and> calls isDescribeStatus s' = calls isDescribeStatus s
            \<and> fst (waitForDriftDetection p i s') = Inr status
            \<and> StackDriftStatus status \<noteq> IN_SYNC
          \<longrightarrow> fst (repairDrift p s) = Inr False)
   \<and> (\<forall>msg. cdkDeploy p (calls isCdkDeploy s) = Some msg
          \<longrightarrow> fst (repairDrift p s) = Inr False)"
proof (intro conjI allI impI)
  assume "fst (repairDrift p s) = Inr True"
  then show "\<exists>i status. cdkDeploy p (calls isCdkDeploy s) = None
             \<and> detectStackDrift p (calls isDetectStackDrift s) (stackName s) = Inr i
             \<and> fst (waitForDriftDetection p i s) = Inr status
             \<and> StackDriftStatus status = IN_SYNC"
    by (simp add: repairDrift_fst split: sum.splits)
next
  fix i status s'
  assume a: "cdkDeploy p (calls isCdkDeploy s) = None
            \<and> detectStackDrift p (calls isDetectStackDrift s) (stackName s) = Inr i
            \<and> calls isDescribeStatus s' = calls isDescribeStatus s
            \<and> fst (waitForDriftDetection p i s') = Inr status
            \<and> StackDriftStatus status \<noteq> IN_SYNC"
  then have "fst (waitForDriftDetection p i s) = Inr status"
    using waitForDriftDetection_fst_cong [of s' s p i] by simp
  with a show "fst (repairDrift p s) = Inr False"
    by (simp add: repairDrift_fst)
next
  fix msg
  assume "cdkDeploy p (calls isCdkDeploy s) = Some msg"
  then show "fst (repairDrift p s) = Inr False"
    by (simp add: repairDrift_fst)
qed

theorem repairDrift_outcome_witness:
  "fst (repairDrift okProvider (DriftDetector ''IcebergCdkStack'')) = Inr True
   \<and> (\<exists>i status. cdkDeploy okProvider 0 = None
          \<and> detectStackDrift okProvider 0 ''IcebergCdkStack'' = Inr i
          \<and> fst (waitForDriftDetection okProvider i (DriftDetector ''IcebergCdkStack''))
              = Inr status
          \<and> StackDriftStatus status = IN_SYNC)
   \<and> fst (waitForDriftDetection stillDriftedProvider ''detection-1''
             (DriftDetector ''IcebergCdkStack''))
       = Inr (sampleStatus DETECTION_COMPLETE DRIFTED None)
   \<and> fst (repairDrift stillDriftedProvider (DriftDetector ''IcebergCdkStack'')) = Inr False
   \<and> cdkDeploy deployFailsProvider 0 = Some ''cdk deploy: exit status 1''
   \<and> fst (repairDrift deployFailsProvider (DriftDetector ''IcebergCdkStack'')) = Inr False"
proof -
  let ?s = "DriftDetector ''IcebergCdkStack''"
  have wok: "fst (waitForDriftDetection okProvider ''detection-1'' ?s)
             = Inr (sampleStatus DETECTION_COMPLETE IN_SYNC None)"
    by (simp add: waitForDriftDetection_def waitLoop_complete [where status =
          "sampleStatus DETECTION_COMPLETE IN_SYNC None"]
          maxAttempts_def calls_emit okProvider_def sampleStatus_def)
  have cok: "cdkDeploy okProvider n = None" for n
    by (simp add: okProvider_def)
  have dok: "detectStackDrift okProvider n name = Inr ''detection-1''" for n name
    by (simp add: okProvider_def)
  have ok: "fst (repairDrift okProvider ?s) = Inr True"
    by (simp add: repairDrift_fst cok dok wok) (simp add: sampleStatus_def)
  have wd: "fst (waitForDriftDetection stillDriftedProvider ''detection-1'' ?s)
            = Inr (sampleStatus DETECTION_COMPLETE DRIFTED None)"
    by (simp add: waitForDriftDetection_def waitLoop_complete [where status =
          "sampleStatus DETECTION_COMPLETE DRIFTED None"]
          maxAttempts_def calls_emit stillDriftedProvider_def okProvider_def sampleStatus_def)
  have pd: "cdkDeploy stillDriftedProvider (calls isCdkDeploy ?s) = None
            \<and> detectStackDrift stillDriftedProvider (calls isDetectStackDrift ?s) (stackName ?s)
                = Inr ''detection-1''
            \<and> calls isDescribeStatus ?s = calls isDescribeStatus ?s
            \<and> fst (waitForDriftDetection stillDriftedProvider ''detection-1'' ?s)
                = Inr (sampleStatus DETECTION_COMPLETE DRIFTED None)
            \<and> StackDriftStatus (sampleStatus DETECTION_COMPLETE DRIFTED None) \<noteq> IN_SYNC"
    by (simp add: wd) (simp add: stillDriftedProvider_def okProvider_def sampleStatus_def)
  have df: "cdkDeploy deployFailsProvider (calls isCdkDeploy ?s)
            = Some ''cdk deploy: exit status 1''"
    by (simp add: deployFailsProvider_def okProvider_def)
  have a: "\<exists>i status. cdkDeploy okProvider (calls isCdkDeploy ?s) = None
             \<and> detectStackDrift okProvider (calls isDetectStackDrift ?s) (stackName ?s) = Inr i
             \<and> fst (waitForDriftDetection okProvider i ?s) = Inr status
             \<and> StackDriftStatus status = IN_SYNC"
    using repairDrift_outcome [of okProvider ?s] ok by blast
  have b: "fst (repairDrift stillDriftedProvider ?s) = Inr False"
    using repairDrift_outcome [of stillDriftedProvider ?s] pd by blast
  have c: "fst (repairDrift deployFailsProvider ?s) = Inr False"
    using repairDrift_outcome [of deployFailsProvider ?s] df by blast
  show ?thesis
    using ok a wd b df c by simp
qed

section \<open>The command-line driver\<close>



















text \<open>Runs of the whole flow, on the sample collaborators.\<close>

lemmas flow_defs =
  detectAndRepair_def detectAndReport_def detectAndReportTry_def checkStackExists_def
  startDriftDetection_def getDriftDetails_def askForRepair_def displayDriftReport_def
  createReadlineInterface_def cleanup_def repairDrift_def repairDriftTry_def withRepair_def

lemmas poll_once = waitForDriftDetection_def waitLoop.simps [of _ _ 0] maxAttempts_def

lemma sampleStatus_sel [simp]:
  "DetectionStatus (sampleStatus d st r) = d"
  "StackDriftStatus (sampleStatus d st r) = st"
  by (simp_all add: sampleStatus_def)

lemma drifted_sampleDrifts: "drifted (analyzeDrifts sampleDrifts) = 2"
  by (simp add: analyzeDrifts_def sampleDrifts_def sampleResource_def)





text \<open>
  When the question is never answered, the flow does not settle, \<open>process.exit\<close> is not
  reached, and the readline interface stays open.
\<close>

lemma run_unanswered:
  "fst (driver silentProvider) = None \<and> rl (snd (driver silentProvider))"
proof -
  let ?s = "DriftDetector ''IcebergCdkStack''"
  obtain x s' where d: "detectAndRepair silentProvider ?s = (x, s')"
    by (cases "detectAndRepair silentProvider ?s")
  have "fst (detectAndRepair silentProvider ?s) = None"
    by (simp add: flow_defs poll_once silentProvider_def driftedProvider_def okProvider_def
          drifted_sampleDrifts Let_def)
  moreover have "rl (snd (detectAndRepair silentProvider ?s))"
    by (simp add: flow_defs poll_once silentProvider_def driftedProvider_def okProvider_def
          drifted_sampleDrifts Let_def)
  ultimately have "x = None" "rl s'"
    using d by simp_all
  then show ?thesis
    using d by (simp add: driver_def)
qed



end
